theory Spec2Isabelle
  imports Main
begin

unbundle bit_operations_syntax

section \<open>Python values and strings\<close>

text \<open>
  A Python \<open>str\<close> is represented by the byte sequence of its UTF-8 encoding, as a HOL
  \<open>string\<close>. Under this representation \<open>data.encode("utf-8")\<close> only changes the type of
  the elements, and \<open>replace("\\", "/")\<close>, slicing of hex digits, \<open>join\<close> and \<open>format\<close>
  act on ASCII bytes. Strings with lone surrogates, for which \<open>encode\<close> raises, have no
  representation and are outside the model.

  The values that flow through option resolution are attribute values, metadata values
  converted by the host framework, and the defaults of the source. Only two things are
  done with them: the test \<open>is not None\<close> and formatting with \<open>"{}".format\<close>. A value of
  any type other than \<open>None\<close>, \<open>str\<close>, \<open>int\<close> and \<open>bool\<close> (a float, a list, a dict) is carried
  as \<open>PObj\<close> with the text that \<open>str()\<close> gives for it.
\<close>

datatype pyval = PNone | PStr string | PInt int | PBool bool | PObj string

definition digit_char :: "nat \<Rightarrow> char" where
  "digit_char n = ''0123456789'' ! n"

fun str_nat :: "nat \<Rightarrow> string" where
  "str_nat n = (if n < 10 then [digit_char n] else str_nat (n div 10) @ [digit_char (n mod 10)])"

declare str_nat.simps [simp del]

definition str_int :: "int \<Rightarrow> string" where
  "str_int i = (if i < 0 then CHR ''-'' # str_nat (nat (- i)) else str_nat (nat i))"

text \<open>\<open>"{}".format(v)\<close>: the text of \<open>str(v)\<close>.\<close>

fun format_value :: "pyval \<Rightarrow> string" where
  "format_value PNone = ''None''"
| "format_value (PStr s) = s"
| "format_value (PInt i) = str_int i"
| "format_value (PBool b) = (if b then ''True'' else ''False'')"
| "format_value (PObj s) = s"

text \<open>\<open>sep.join(xs)\<close>\<close>

fun join :: "string \<Rightarrow> string list \<Rightarrow> string" where
  "join sep [] = []"
| "join sep [x] = x"
| "join sep (x # y # ys) = x @ sep @ join sep (y # ys)"

text \<open>\<open>s.replace("\\", "/")\<close>: every backslash (byte 0x5C) becomes a slash.\<close>

definition replace_backslash :: "string \<Rightarrow> string" where
  "replace_backslash s = map (\<lambda>c. if c = CHR 0x5C then CHR ''/'' else c) s"

text \<open>\<open>xs.remove(x)\<close>: deletes the first occurrence, raises \<open>ValueError\<close> when there is none.\<close>

datatype error = AssertionError string | OSError | FileError | ValueError

definition list_remove :: "string list \<Rightarrow> string \<Rightarrow> error + string list" where
  "list_remove xs x = (if x \<in> set xs then Inr (remove1 x xs) else Inl ValueError)"

section \<open>SHA-1 (\<open>hashlib.sha1(...).hexdigest()\<close>)\<close>

text \<open>
  Bytes and 32-bit words are integers, with the reduction modulo \<open>2 ^ 32\<close> written out
  where an operation can leave the range.
\<close>

type_synonym byte = int
type_synonym u32 = int
type_synonym sha1_state = "u32 \<times> u32 \<times> u32 \<times> u32 \<times> u32"

definition encode_utf8 :: "string \<Rightarrow> byte list" where
  "encode_utf8 s = map of_char s"

definition add32 :: "u32 \<Rightarrow> u32 \<Rightarrow> u32" where
  "add32 a b = (a + b) mod 4294967296"

definition rotl :: "nat \<Rightarrow> u32 \<Rightarrow> u32" where
  "rotl n x = (x * 2 ^ n) mod 4294967296 + x div 2 ^ (32 - n)"

definition not32 :: "u32 \<Rightarrow> u32" where
  "not32 x = 4294967295 - x"

definition be64 :: "int \<Rightarrow> byte list" where
  "be64 v = map (\<lambda>i. v div 256 ^ (7 - i) mod 256) [0..<8]"

definition sha1_pad :: "byte list \<Rightarrow> byte list" where
  "sha1_pad m =
     (let l = length m; k = (119 - l mod 64) mod 64
      in m @ [128] @ replicate k 0 @ be64 (8 * int l))"

fun be32 :: "byte list \<Rightarrow> u32 list" where
  "be32 (a # b # c # d # r) = (((a * 256 + b) * 256 + c) * 256 + d) # be32 r"
| "be32 _ = []"

fun chunks :: "nat \<Rightarrow> 'a list \<Rightarrow> 'a list list" where
  "chunks n [] = []"
| "chunks n (x # xs) = take n (x # xs) # chunks n (drop (n - 1) xs)"

fun schedule :: "nat \<Rightarrow> u32 list \<Rightarrow> u32 list" where
  "schedule 0 ws = ws"
| "schedule (Suc k) ws =
     (let n = length ws
      in schedule k
           (ws @ [rotl 1 (ws ! (n - 3) XOR ws ! (n - 8) XOR ws ! (n - 14) XOR ws ! (n - 16))]))"

definition sha1_f :: "nat \<Rightarrow> u32 \<Rightarrow> u32 \<Rightarrow> u32 \<Rightarrow> u32" where
  "sha1_f t b c d =
     (if t < 20 then (b AND c) OR (not32 b AND d)
      else if t < 40 then b XOR c XOR d
      else if t < 60 then (b AND c) OR (b AND d) OR (c AND d)
      else b XOR c XOR d)"

definition sha1_k :: "nat \<Rightarrow> u32" where
  "sha1_k t =
     (if t < 20 then 0x5A827999 else if t < 40 then 0x6ED9EBA1
      else if t < 60 then 0x8F1BBCDC else 0xCA62C1D6)"

fun sha1_round :: "sha1_state \<Rightarrow> nat \<times> u32 \<Rightarrow> sha1_state" where
  "sha1_round (a, b, c, d, e) (t, w) =
     (add32 (add32 (add32 (add32 (rotl 5 a) (sha1_f t b c d)) e) (sha1_k t)) w,
      a, rotl 30 b, c, d)"

text \<open>The rounds of one block: round \<open>t\<close> takes the \<open>t\<close>-th word of the schedule.\<close>

fun sha1_rounds :: "nat \<Rightarrow> u32 list \<Rightarrow> sha1_state \<Rightarrow> sha1_state" where
  "sha1_rounds t [] s = s"
| "sha1_rounds t (w # ws) s = sha1_rounds (t + 1) ws (sha1_round s (t, w))"

fun sha1_block :: "sha1_state \<Rightarrow> u32 list \<Rightarrow> sha1_state" where
  "sha1_block (h0, h1, h2, h3, h4) blk =
     (case sha1_rounds 0 (schedule 64 blk) (h0, h1, h2, h3, h4) of
        (a, b, c, d, e) \<Rightarrow> (add32 h0 a, add32 h1 b, add32 h2 c, add32 h3 d, add32 h4 e))"

definition sha1 :: "byte list \<Rightarrow> sha1_state" where
  "sha1 m =
     foldl sha1_block (0x67452301, 0xEFCDAB89, 0x98BADCFE, 0x10325476, 0xC3D2E1F0)
       (chunks 16 (be32 (sha1_pad m)))"

definition hex_digit :: "int \<Rightarrow> char" where
  "hex_digit n = ''0123456789abcdef'' ! nat n"

definition hex32 :: "u32 \<Rightarrow> string" where
  "hex32 w = map (\<lambda>i. hex_digit (w div 16 ^ (7 - i) mod 16)) [0..<8]"

fun hexdigest :: "sha1_state \<Rightarrow> string" where
  "hexdigest (a, b, c, d, e) = concat (map hex32 [a, b, c, d, e])"

section \<open>The document tree\<close>

text \<open>
  The tree comes from the host framework. A code block carries its text, a link and an
  image carry caption content, a target and a title; all three carry an identifier, a list
  of classes and an attribute dictionary. Classes are a Python list: order and repetitions
  are kept. The attribute dictionary is an association list read with \<open>map_of\<close>. Caption
  content is only handed over from a link to the image that replaces it.
\<close>

datatype inline = Str string | Space

record attr_elem =
  ident :: string
  classes :: "string list"
  attributes :: "(string \<times> pyval) list"

record code_block = attr_elem +
  cb_text :: string

record target_elem = attr_elem +
  content :: "inline list"
  url :: string
  title :: string

datatype elem =
    CodeBlock code_block
  | Link target_elem
  | Image target_elem
  | Para "elem list"
  | OtherElem string

text \<open>
  The document holds the metadata store. \<open>doc.get_metadata(key, default)\<close> of the host
  framework looks a dotted key up and returns the stored value converted to a builtin, or
  the default when the key is absent; the store is an association list on dotted keys.
\<close>

record document =
  metadata :: "(string \<times> pyval) list"
  blocks :: "elem list"

definition get_metadata :: "document \<Rightarrow> string \<Rightarrow> pyval \<Rightarrow> pyval" where
  "get_metadata doc key dflt = (case map_of (metadata doc) key of None \<Rightarrow> dflt | Some v \<Rightarrow> v)"

text \<open>\<open>attributes.get(key, default)\<close>\<close>

definition dict_get :: "(string \<times> pyval) list \<Rightarrow> string \<Rightarrow> pyval \<Rightarrow> pyval" where
  "dict_get d key dflt = (case map_of d key of None \<Rightarrow> dflt | Some v \<Rightarrow> v)"

section \<open>The operating system\<close>

text \<open>
  What the filter reads from and does to its environment: \<open>shutil.which\<close>,
  \<open>os.path.abspath\<close> (which depends on the platform and on the working directory),
  \<open>os.path.exists\<close>, \<open>os.mkdir\<close> (which may fail), reading a text file (the table gives
  the text that \<open>open(fn, "r", encoding="utf-8").read()\<close> returns, \<open>None\<close> when that
  raises), the subprocesses started so far and the lines written by \<open>pf.debug\<close>.
  A subprocess entry records its shell command, the bytes sent to its standard input and
  whether the filter has waited for its exit: \<open>Popen\<close> adds an entry that has not been
  waited for, \<open>communicate\<close> sends the input and returns once the process has exited.
\<close>

record proc =
  command :: string
  stdin_data :: "byte list option"
  waited :: bool

record world =
  which_tbl :: "string \<Rightarrow> string option"
  abspath_fn :: "string \<Rightarrow> string"
  exists_fn :: "string \<Rightarrow> bool"
  mkdir_ok :: "string \<Rightarrow> bool"
  files :: "string \<Rightarrow> string option"
  procs :: "proc list"
  debug_log :: "string list"

text \<open>\<open>if which(name)\<close>: a found executable is a non-empty path.\<close>

definition which_found :: "world \<Rightarrow> string \<Rightarrow> bool" where
  "which_found w name = (case which_tbl w name of None \<Rightarrow> False | Some p \<Rightarrow> p \<noteq> [])"

definition mkdir :: "string \<Rightarrow> world \<Rightarrow> error + world" where
  "mkdir d w = (if mkdir_ok w d then Inr (w\<lparr>exists_fn := (exists_fn w)(d := True)\<rparr>) else Inl OSError)"

definition read_text :: "world \<Rightarrow> string \<Rightarrow> error + string" where
  "read_text w fn = (case files w fn of None \<Rightarrow> Inl FileError | Some t \<Rightarrow> Inr t)"

definition debug :: "string \<Rightarrow> world \<Rightarrow> world" where
  "debug line w = w\<lparr>debug_log := debug_log w @ [line]\<rparr>"

definition popen :: "string \<Rightarrow> world \<Rightarrow> nat \<times> world" where
  "popen cmd w =
     (length (procs w),
      w\<lparr>procs := procs w @ [\<lparr>command = cmd, stdin_data = None, waited = False\<rparr>]\<rparr>)"

definition communicate :: "nat \<Rightarrow> byte list \<Rightarrow> world \<Rightarrow> world" where
  "communicate pid input w =
     w\<lparr>procs := (procs w)[pid := (procs w ! pid)\<lparr>stdin_data := Some input, waited := True\<rparr>]\<rparr>"

section \<open>The filter\<close>

record svgbob_inline =
  dir_to :: string
  svgbob_cmd :: string
  basename :: "string option"

definition marker :: string where
  "marker = ''svgbob''"

definition init :: "world \<Rightarrow> error + svgbob_inline" where
  "init w =
     (if which_found w ''svgbob_cli''
      then Inr \<lparr>dir_to = ''svg'', svgbob_cmd = ''svgbob_cli'', basename = None\<rparr>
      else if which_found w ''svgbob''
      then Inr \<lparr>dir_to = ''svg'', svgbob_cmd = ''svgbob'', basename = None\<rparr>
      else Inl (AssertionError ''svgbob or svgbob_cli is not in path''))"

definition background_option :: string where
  \<open>background_option = ''--background "#fdf6e3"''\<close>

definition get_options :: "(string \<times> pyval) list \<Rightarrow> document \<Rightarrow> string" where
  \<open>get_options attrs doc =
     (let meta_font_family = get_metadata doc ''svgbob.font-family'' (PStr ''Arial'');
          meta_font_size = get_metadata doc ''svgbob.font-size'' (PInt 14);
          meta_scale = get_metadata doc ''svgbob.scale'' (PInt 1);
          meta_stroke_width = get_metadata doc ''svgbob.stroke-width'' (PInt 2);
          font_family = dict_get attrs ''font-family'' meta_font_family;
          font_size = dict_get attrs ''font-size'' meta_font_size;
          scale = dict_get attrs ''scale'' meta_scale;
          stroke_width = dict_get attrs ''stroke-width'' meta_stroke_width
      in join '' ''
           [if font_family \<noteq> PNone then ''--font-family "'' @ format_value font_family @ ''"'' else '''',
            if font_size \<noteq> PNone then ''--font-size '' @ format_value font_size else '''',
            if scale \<noteq> PNone then ''--scale '' @ format_value scale else '''',
            if stroke_width \<noteq> PNone then ''--stroke-width '' @ format_value stroke_width else '''',
            background_option])\<close>

text \<open>
  A conversion returns the objects it may have changed (the filter instance, the visited
  node, the environment) as they are when it returns or raises, and beside them either the
  raised error or the returned value.
\<close>

definition process_codeblock ::
  "svgbob_inline \<Rightarrow> code_block \<Rightarrow> document \<Rightarrow> world
     \<Rightarrow> (svgbob_inline \<times> code_block \<times> world) \<times> (error + elem)" where
  "process_codeblock self elem doc w =
     (case (if \<not> exists_fn w (dir_to self) then mkdir (dir_to self) w else Inr w) of
        Inl e \<Rightarrow> ((self, elem, w), Inl e)
      | Inr w1 \<Rightarrow>
         (let data = cb_text elem;
              counter = take 8 (hexdigest (sha1 (encode_utf8 data)));
              base = join ''/'' [dir_to self, counter];
              self1 = self\<lparr>basename := Some base\<rparr>;
              format = ''svg'';
              linkto = replace_backslash (abspath_fn w1 (join ''.'' [base, format]));
              svgbob_option = get_options (attributes elem) doc;
              command = svgbob_cmd self1 @ '' '' @ svgbob_option @ '' -o '' @ linkto;
              w2 = debug command w1;
              (pid, w3) = popen command w2;
              w4 = communicate pid (encode_utf8 data) w3;
              w5 = debug (''[codeblock] generate svgbob to '' @ linkto) w4
          in (case list_remove (classes elem) marker of
                Inl e \<Rightarrow> ((self1, elem, w5), Inl e)
              | Inr cs \<Rightarrow>
                 (let elem1 = elem\<lparr>classes := cs\<rparr>
                  in ((self1, elem1, w5),
                      Inr (Para [Image \<lparr>ident = ident elem1, classes = classes elem1,
                                        attributes = attributes elem1, content = [],
                                        url = linkto, title = ''''\<rparr>]))))))"

text \<open>The branch of \<open>action\<close> for a link that carries the marker.\<close>

definition action_link ::
  "svgbob_inline \<Rightarrow> target_elem \<Rightarrow> document \<Rightarrow> world
     \<Rightarrow> (svgbob_inline \<times> target_elem \<times> world) \<times> (error + elem)" where
  "action_link self elem doc w =
     (let fn = url elem;
          caption = content elem
      in (case (if \<not> exists_fn w (dir_to self) then mkdir (dir_to self) w else Inr w) of
            Inl e \<Rightarrow> ((self, elem, w), Inl e)
          | Inr w1 \<Rightarrow>
             (case read_text w1 fn of
                Inl e \<Rightarrow> ((self, elem, w1), Inl e)
              | Inr data \<Rightarrow>
                 (let counter = take 8 (hexdigest (sha1 (encode_utf8 data)));
                      base = join ''/'' [dir_to self, counter];
                      self1 = self\<lparr>basename := Some base\<rparr>;
                      format = ''svg'';
                      fn1 = abspath_fn w1 fn;
                      linkto = replace_backslash (abspath_fn w1 (join ''.'' [base, format]));
                      svgbob_option = get_options (attributes elem) doc;
                      command = svgbob_cmd self1 @ '' '' @ fn1 @ '' '' @ svgbob_option
                                  @ '' -o '' @ linkto;
                      w2 = debug command w1;
                      (pid, w3) = popen command w2;
                      w4 = debug (''[inline] generate svgbob from '' @ fn1 @ '' to '' @ linkto) w3
                  in (case list_remove (classes elem) marker of
                        Inl e \<Rightarrow> ((self1, elem, w4), Inl e)
                      | Inr cs \<Rightarrow>
                         (let elem1 = elem\<lparr>classes := cs\<rparr>
                          in ((self1, elem1, w4),
                              Inr (Image \<lparr>ident = ident elem1, classes = classes elem1,
                                          attributes = attributes elem1, content = caption,
                                          url = linkto, title = ''fig:''\<rparr>))))))))"

text \<open>
  \<open>action\<close> returns \<open>None\<close> (no replacement) when it falls through both tests; a conversion
  returns the replacement node.
\<close>

fun action ::
  "svgbob_inline \<Rightarrow> elem \<Rightarrow> document \<Rightarrow> world
     \<Rightarrow> (svgbob_inline \<times> elem \<times> world) \<times> (error + elem option)" where
  "action self (CodeBlock cb) doc w =
     (if marker \<in> set (classes cb)
      then (case process_codeblock self cb doc w of
              ((self1, cb1, w1), r) \<Rightarrow> ((self1, CodeBlock cb1, w1), map_sum id Some r))
      else ((self, CodeBlock cb, w), Inr None))"
| "action self (Link l) doc w =
     (if marker \<in> set (classes l)
      then (case action_link self l doc w of
              ((self1, l1, w1), r) \<Rightarrow> ((self1, Link l1, w1), map_sum id Some r))
      else ((self, Link l, w), Inr None))"
| "action self e doc w = ((self, e, w), Inr None)"

text \<open>
  \<open>main\<close> builds the filter instance and hands its \<open>action\<close> to the host framework's
  \<open>run_filters\<close>, which is a parameter here.
\<close>

type_synonym host =
  "(elem \<Rightarrow> document \<Rightarrow> svgbob_inline \<times> world
      \<Rightarrow> (svgbob_inline \<times> elem \<times> world) \<times> (error + elem option))
   \<Rightarrow> document \<Rightarrow> svgbob_inline \<times> world \<Rightarrow> world \<times> (error + document)"

definition main :: "host \<Rightarrow> document \<Rightarrow> world \<Rightarrow> world \<times> (error + document)" where
  "main run_filters doc w =
     (case init w of
        Inl e \<Rightarrow> (w, Inl e)
      | Inr si \<Rightarrow> run_filters (\<lambda>e d (s, v). action s e d v) doc (si, w))"

section \<open>A host that walks the tree\<close>

text \<open>
  One host, used to run \<open>main\<close> on examples: it visits the blocks in document order, the
  children of a paragraph before the paragraph, keeps a node for which the action returns
  \<open>None\<close>, puts the returned node in its place otherwise, and stops at the first error.
\<close>

type_synonym visitor =
  "elem \<Rightarrow> document \<Rightarrow> svgbob_inline \<times> world
     \<Rightarrow> (svgbob_inline \<times> elem \<times> world) \<times> (error + elem option)"

definition visit ::
  "visitor \<Rightarrow> document \<Rightarrow> elem \<Rightarrow> svgbob_inline \<times> world
     \<Rightarrow> (svgbob_inline \<times> world) \<times> (error + elem)" where
  "visit act doc e st =
     (case act e doc st of
        ((s, e1, w), Inl x) \<Rightarrow> ((s, w), Inl x)
      | ((s, e1, w), Inr None) \<Rightarrow> ((s, w), Inr e1)
      | ((s, e1, w), Inr (Some r)) \<Rightarrow> ((s, w), Inr r))"

fun walk ::
  "visitor \<Rightarrow> document \<Rightarrow> elem \<Rightarrow> svgbob_inline \<times> world
     \<Rightarrow> (svgbob_inline \<times> world) \<times> (error + elem)"
and walk_list ::
  "visitor \<Rightarrow> document \<Rightarrow> elem list \<Rightarrow> svgbob_inline \<times> world
     \<Rightarrow> (svgbob_inline \<times> world) \<times> (error + elem list)" where
  "walk act doc (Para es) st =
     (case walk_list act doc es st of
        (st1, Inl x) \<Rightarrow> (st1, Inl x)
      | (st1, Inr es1) \<Rightarrow> visit act doc (Para es1) st1)"
| "walk act doc (CodeBlock cb) st = visit act doc (CodeBlock cb) st"
| "walk act doc (Link l) st = visit act doc (Link l) st"
| "walk act doc (Image i) st = visit act doc (Image i) st"
| "walk act doc (OtherElem n) st = visit act doc (OtherElem n) st"
| "walk_list act doc [] st = (st, Inr [])"
| "walk_list act doc (e # es) st =
     (case walk act doc e st of
        (st1, Inl x) \<Rightarrow> (st1, Inl x)
      | (st1, Inr e1) \<Rightarrow>
         (case walk_list act doc es st1 of
            (st2, Inl x) \<Rightarrow> (st2, Inl x)
          | (st2, Inr es1) \<Rightarrow> (st2, Inr (e1 # es1))))"

definition walk_host :: host where
  "walk_host act doc st =
     (case walk_list act doc (blocks doc) st of
        ((s, w), Inl x) \<Rightarrow> (w, Inl x)
      | ((s, w), Inr bs) \<Rightarrow> (w, Inr (doc\<lparr>blocks := bs\<rparr>)))"

section \<open>The statements of the specification\<close>

text \<open>
  Option resolution in the words of the specification: the node attribute when the key is
  present, else the metadata value under \<open>svgbob.<key>\<close> when present, else the default.
\<close>

definition resolve :: "string \<Rightarrow> pyval \<Rightarrow> (string \<times> pyval) list \<Rightarrow> document \<Rightarrow> pyval" where
  "resolve key dflt attrs doc =
     (case map_of attrs key of
        Some v \<Rightarrow> v
      | None \<Rightarrow> (case map_of (metadata doc) (''svgbob.'' @ key) of Some v \<Rightarrow> v | None \<Rightarrow> dflt))"

text \<open>
  The segments that are joined by single spaces into the option string: one per tunable,
  empty when the value is \<open>None\<close>, and the fixed background option last.
\<close>

definition flag_segment :: "string \<Rightarrow> bool \<Rightarrow> pyval \<Rightarrow> string" where
  \<open>flag_segment name quoted v =
     (if v = PNone then ''''
      else if quoted then ''--'' @ name @ '' "'' @ format_value v @ ''"''
      else ''--'' @ name @ '' '' @ format_value v)\<close>

definition option_segments :: "(string \<times> pyval) list \<Rightarrow> document \<Rightarrow> string list" where
  "option_segments attrs doc =
     [flag_segment ''font-family'' True (resolve ''font-family'' (PStr ''Arial'') attrs doc),
      flag_segment ''font-size'' False (resolve ''font-size'' (PInt 14) attrs doc),
      flag_segment ''scale'' False (resolve ''scale'' (PInt 1) attrs doc),
      flag_segment ''stroke-width'' False (resolve ''stroke-width'' (PInt 2) attrs doc),
      background_option]"

text \<open>
  The artifact path: \<open><output-dir>/<first 8 hex digits of the SHA-1 of the text>.svg\<close>,
  made absolute by the platform and with backslashes replaced. It is a function of the
  output directory, of the platform's path resolution and of the text.
\<close>

definition artifact_path :: "string \<Rightarrow> (string \<Rightarrow> string) \<Rightarrow> string \<Rightarrow> string" where
  "artifact_path dir abspath data =
     replace_backslash
       (abspath (dir @ ''/'' @ take 8 (hexdigest (sha1 (encode_utf8 data))) @ ''.svg''))"

text \<open>The output directory exists or can be created.\<close>

definition dir_ready :: "svgbob_inline \<Rightarrow> world \<Rightarrow> bool" where
  "dir_ready self w = (exists_fn w (dir_to self) \<or> mkdir_ok w (dir_to self))"

text \<open>The environment once the output directory is there.\<close>

definition ensure_dir :: "string \<Rightarrow> world \<Rightarrow> world" where
  "ensure_dir d w = (if exists_fn w d then w else w\<lparr>exists_fn := (exists_fn w)(d := True)\<rparr>)"

text \<open>The nodes that the dispatcher converts.\<close>

fun is_marked :: "elem \<Rightarrow> bool" where
  "is_marked (CodeBlock cb) = (marker \<in> set (classes cb))"
| "is_marked (Link l) = (marker \<in> set (classes l))"
| "is_marked e = False"

text \<open>The image that a conversion returns: bare for a link, inside a paragraph for a code block.\<close>

fun image_of :: "error + elem \<Rightarrow> target_elem option" where
  "image_of (Inr (Para [Image i])) = Some i"
| "image_of (Inr (Image i)) = Some i"
| "image_of r = None"

definition artifact_of :: "error + elem \<Rightarrow> string option" where
  "artifact_of r = map_option url (image_of r)"

definition classes_of :: "error + elem \<Rightarrow> string list option" where
  "classes_of r = map_option classes (image_of r)"

text \<open>The objects after a conversion, and the commands of the subprocesses of an environment.\<close>

definition node_after :: "('s \<times> 'n \<times> world) \<times> 'r \<Rightarrow> 'n" where
  "node_after res = fst (snd (fst res))"

definition world_after :: "('s \<times> 'n \<times> world) \<times> 'r \<Rightarrow> world" where
  "world_after res = snd (snd (fst res))"

definition self_after :: "('s \<times> 'n \<times> world) \<times> 'r \<Rightarrow> 's" where
  "self_after res = fst (fst res)"

section \<open>Example inputs\<close>

text \<open>
  A POSIX environment with working directory \<open>/work\<close>: \<open>svgbob\<close> is on the path, there is
  no \<open>svg\<close> directory yet, and \<open>diagram.txt\<close> holds the text \<open>x->y\<close>. The second
  environment has no renderer on its path.
\<close>

definition work_world :: world where
  "work_world =
     \<lparr>which_tbl = (\<lambda>n. if n = ''svgbob'' then Some ''/usr/bin/svgbob'' else None),
      abspath_fn = (\<lambda>p. ''/work/'' @ p),
      exists_fn = (\<lambda>p. False),
      mkdir_ok = (\<lambda>p. True),
      files = (\<lambda>p. if p = ''diagram.txt'' then Some ''x->y'' else None),
      procs = [],
      debug_log = []\<rparr>"

definition bare_world :: world where
  "bare_world = work_world\<lparr>which_tbl := (\<lambda>n. None)\<rparr>"

definition svgbob_self :: svgbob_inline where
  "svgbob_self = \<lparr>dir_to = ''svg'', svgbob_cmd = ''svgbob'', basename = None\<rparr>"

definition empty_doc :: document where
  "empty_doc = \<lparr>metadata = [], blocks = []\<rparr>"

definition null_doc :: document where
  "null_doc =
     \<lparr>metadata = [(''svgbob.font-family'', PNone), (''svgbob.font-size'', PNone),
                   (''svgbob.scale'', PNone), (''svgbob.stroke-width'', PNone)],
      blocks = []\<rparr>"

definition dash_block :: code_block where
  "dash_block = \<lparr>ident = ''d1'', classes = [''svgbob''], attributes = [], cb_text = ''a--b''\<rparr>"

definition twice_block :: code_block where
  "twice_block =
     \<lparr>ident = ''d2'', classes = [''svgbob'', ''wide'', ''svgbob''], attributes = [],
      cb_text = ''a--b''\<rparr>"

definition diagram_link :: target_elem where
  "diagram_link =
     \<lparr>ident = ''d3'', classes = [''svgbob''], attributes = [], content = [Str ''flow''],
      url = ''diagram.txt'', title = ''''\<rparr>"

definition twice_link :: target_elem where
  "twice_link = diagram_link\<lparr>classes := [''svgbob'', ''wide'', ''svgbob'']\<rparr>"

definition dash_doc :: document where
  "dash_doc = \<lparr>metadata = [], blocks = [Para [Link diagram_link], CodeBlock dash_block]\<rparr>"

section \<open>Evaluating the hash\<close>

lemma schedule_numeral:
  "schedule (numeral k) ws =
     schedule (pred_numeral k)
       (ws @ [rotl 1 (ws ! (length ws - 3) XOR ws ! (length ws - 8) XOR ws ! (length ws - 14)
                       XOR ws ! (length ws - 16))])"
  by (simp add: numeral_eq_Suc Let_def)

lemma replicate_numeral:
  "replicate (numeral k) x = x # replicate (pred_numeral k) x"
  by (simp add: numeral_eq_Suc)

lemma upt_8: "[0..<8] = [0, 1, 2, 3, 4, 5, 6, 7]"
  by code_simp

lemmas sha1_eval =
  sha1_def sha1_pad_def be64_def encode_utf8_def upt_8 replicate_numeral
  schedule_numeral rotl_def add32_def not32_def sha1_f_def sha1_k_def hex32_def hex_digit_def

text \<open>\<open>hashlib.sha1(b"a--b").hexdigest()[:8]\<close> and \<open>hashlib.sha1(b"x->y").hexdigest()[:8]\<close>\<close>

lemma sha1_dash: "take 8 (hexdigest (sha1 (encode_utf8 ''a--b''))) = ''73823f1b''"
  by (simp add: sha1_eval)

lemma sha1_arrow: "take 8 (hexdigest (sha1 (encode_utf8 ''x->y''))) = ''6c167aec''"
  by (simp add: sha1_eval)

section \<open>Option resolution\<close>

lemma resolve_eq:
  "resolve key dflt attrs doc = dict_get attrs key (get_metadata doc (''svgbob.'' @ key) dflt)"
  by (simp add: resolve_def dict_get_def get_metadata_def split: option.splits)

lemma str_int_small: "str_int 14 = ''14''" "str_int 1 = ''1''" "str_int 2 = ''2''"
  by (simp_all add: str_int_def str_nat.simps digit_char_def)

lemma get_options_defaults:
  \<open>get_options [] empty_doc =
     ''--font-family "Arial" --font-size 14 --scale 1 --stroke-width 2 --background "#fdf6e3"''\<close>
  by (simp add: get_options_def get_metadata_def dict_get_def empty_doc_def background_option_def
      str_int_small)

lemma join_background:
  "join '' '' [a, b, c, d, background_option]
     = (a @ '' '' @ b @ '' '' @ c @ '' '' @ d @ '' '') @ background_option"
  by simp

section \<open>A conversion that succeeds\<close>

lemma list_remove_marker:
  "marker \<in> set cs \<Longrightarrow> list_remove cs marker = Inr (remove1 marker cs)"
  by (simp add: list_remove_def)

lemma first_step_ready:
  "dir_ready self w \<Longrightarrow>
     (if \<not> exists_fn w (dir_to self) then mkdir (dir_to self) w else Inr w)
       = Inr (ensure_dir (dir_to self) w)"
  by (auto simp: dir_ready_def mkdir_def ensure_dir_def)

lemma ensure_dir_fields [simp]:
  "abspath_fn (ensure_dir d w) = abspath_fn w"
  "files (ensure_dir d w) = files w"
  "procs (ensure_dir d w) = procs w"
  "debug_log (ensure_dir d w) = debug_log w"
  "which_tbl (ensure_dir d w) = which_tbl w"
  "mkdir_ok (ensure_dir d w) = mkdir_ok w"
  "exists_fn (ensure_dir d w) d"
  by (simp_all add: ensure_dir_def)

lemma process_codeblock_success:
  assumes "marker \<in> set (classes cb)" and "dir_ready self w"
  shows "process_codeblock self cb doc w =
     (let linkto = artifact_path (dir_to self) (abspath_fn w) (cb_text cb);
          command = svgbob_cmd self @ '' '' @ get_options (attributes cb) doc @ '' -o '' @ linkto
      in ((self\<lparr>basename :=
                  Some (dir_to self @ ''/'' @ take 8 (hexdigest (sha1 (encode_utf8 (cb_text cb)))))\<rparr>,
           cb\<lparr>classes := remove1 marker (classes cb)\<rparr>,
           (ensure_dir (dir_to self) w)
             \<lparr>procs := procs w @ [\<lparr>command = command, stdin_data = Some (encode_utf8 (cb_text cb)),
                                     waited = True\<rparr>],
              debug_log := debug_log w @ [command, ''[codeblock] generate svgbob to '' @ linkto]\<rparr>),
          Inr (Para [Image \<lparr>ident = ident cb, classes = remove1 marker (classes cb),
                            attributes = attributes cb, content = [],
                            url = linkto, title = ''''\<rparr>])))"
  unfolding process_codeblock_def first_step_ready [OF assms(2)] list_remove_marker [OF assms(1)]
  by (simp add: Let_def popen_def communicate_def debug_def artifact_path_def)

lemma process_codeblock_procs:
  assumes "dir_ready self w"
  shows "procs (world_after (process_codeblock self cb doc w)) =
           procs w @
             [\<lparr>command = svgbob_cmd self @ '' '' @ get_options (attributes cb) doc @ '' -o ''
                           @ artifact_path (dir_to self) (abspath_fn w) (cb_text cb),
               stdin_data = Some (encode_utf8 (cb_text cb)), waited = True\<rparr>]"
  unfolding process_codeblock_def first_step_ready [OF assms] world_after_def
  by (simp add: Let_def popen_def communicate_def debug_def artifact_path_def list_remove_def)

lemma action_link_success:
  assumes "marker \<in> set (classes l)" and "dir_ready self w" and "files w (url l) = Some data"
  shows "action_link self l doc w =
     (let linkto = artifact_path (dir_to self) (abspath_fn w) data;
          command = svgbob_cmd self @ '' '' @ abspath_fn w (url l) @ '' ''
                      @ get_options (attributes l) doc @ '' -o '' @ linkto
      in ((self\<lparr>basename := Some (dir_to self @ ''/'' @ take 8 (hexdigest (sha1 (encode_utf8 data))))\<rparr>,
           l\<lparr>classes := remove1 marker (classes l)\<rparr>,
           (ensure_dir (dir_to self) w)
             \<lparr>procs := procs w @ [\<lparr>command = command, stdin_data = None, waited = False\<rparr>],
              debug_log := debug_log w @
                 [command,
                  ''[inline] generate svgbob from '' @ abspath_fn w (url l) @ '' to '' @ linkto]\<rparr>),
          Inr (Image \<lparr>ident = ident l, classes = remove1 marker (classes l),
                      attributes = attributes l, content = content l,
                      url = linkto, title = ''fig:''\<rparr>)))"
proof -
  have rd: "read_text (ensure_dir (dir_to self) w) (url l) = Inr data"
    by (simp add: read_text_def assms(3))
  show ?thesis
    unfolding action_link_def Let_def first_step_ready [OF assms(2)] list_remove_marker [OF assms(1)]
    by (simp add: rd popen_def debug_def artifact_path_def)
qed

lemma action_link_procs:
  assumes "dir_ready self w" and "files w (url l) = Some data"
  shows "procs (world_after (action_link self l doc w)) =
           procs w @
             [\<lparr>command = svgbob_cmd self @ '' '' @ abspath_fn w (url l) @ '' ''
                           @ get_options (attributes l) doc @ '' -o ''
                           @ artifact_path (dir_to self) (abspath_fn w) data,
               stdin_data = None, waited = False\<rparr>]"
proof -
  have rd: "read_text (ensure_dir (dir_to self) w) (url l) = Inr data"
    by (simp add: read_text_def assms(2))
  show ?thesis
    unfolding action_link_def Let_def first_step_ready [OF assms(1)] world_after_def
    by (simp add: rd popen_def debug_def artifact_path_def list_remove_def)
qed

section \<open>The examples\<close>

lemma init_work_world: "init work_world = Inr svgbob_self"
  by (simp add: init_def which_found_def work_world_def svgbob_self_def)

lemma work_ready: "dir_ready svgbob_self work_world"
  by (simp add: dir_ready_def work_world_def)

lemma work_file: "files work_world (url diagram_link) = Some ''x->y''"
  by (simp add: work_world_def diagram_link_def)

lemma work_file_twice: "files work_world (url twice_link) = Some ''x->y''"
  by (simp add: work_world_def diagram_link_def twice_link_def)

lemma marked_examples:
  "marker \<in> set (classes dash_block)" "marker \<in> set (classes twice_block)"
  "marker \<in> set (classes diagram_link)" "marker \<in> set (classes twice_link)"
  by (simp_all add: marker_def dash_block_def twice_block_def diagram_link_def twice_link_def)

lemma artifact_path_dash:
  "artifact_path (dir_to svgbob_self) (abspath_fn work_world) ''a--b'' = ''/work/svg/73823f1b.svg''"
  by (simp add: artifact_path_def sha1_dash svgbob_self_def work_world_def replace_backslash_def)

lemma artifact_path_arrow:
  "artifact_path (dir_to svgbob_self) (abspath_fn work_world) ''x->y'' = ''/work/svg/6c167aec.svg''"
  by (simp add: artifact_path_def sha1_arrow svgbob_self_def work_world_def replace_backslash_def)

section \<open>The claims\<close>

text \<open>
  C1, as amended. The artifact path that a conversion puts into the returned image is
  \<open>os.path.abspath\<close> of \<open><output-dir>/<first 8 hex digits of the SHA-1 of the UTF-8
  encoding of the text>.svg\<close> with backslashes replaced by slashes, in the code-block path
  (the text of the block) and in the link path (the text read from the linked file). It
  depends on the output directory, on the platform's path resolution and on the text only:
  attributes and document metadata do not occur in it, and a second run on a block with the
  same text, whatever its other fields and the document, in the environment left by the
  first run, gives the same path.
\<close>

theorem artifact_path_content_only:
  assumes "marker \<in> set (classes cb)" and "marker \<in> set (classes l)"
    and "dir_ready self w" and "files w (url l) = Some data"
    and "marker \<in> set (classes cb')" and "cb_text cb' = cb_text cb"
  shows "artifact_of (snd (process_codeblock self cb doc w))
           = Some (artifact_path (dir_to self) (abspath_fn w) (cb_text cb))
       \<and> artifact_of (snd (action_link self l doc w))
           = Some (artifact_path (dir_to self) (abspath_fn w) data)
       \<and> artifact_of (snd (process_codeblock (self_after (process_codeblock self cb doc w)) cb' doc'
                              (world_after (process_codeblock self cb doc w))))
           = artifact_of (snd (process_codeblock self cb doc w))"
proof -
  let ?run = "process_codeblock self cb doc w"
  have first: "artifact_of (snd ?run) = Some (artifact_path (dir_to self) (abspath_fn w) (cb_text cb))"
    by (simp add: process_codeblock_success [OF assms(1) assms(3)] Let_def artifact_of_def)
  have link: "artifact_of (snd (action_link self l doc w))
                = Some (artifact_path (dir_to self) (abspath_fn w) data)"
    by (simp add: action_link_success [OF assms(2) assms(3) assms(4)] Let_def artifact_of_def)
  have dir: "dir_to (self_after ?run) = dir_to self"
    and abs: "abspath_fn (world_after ?run) = abspath_fn w"
    and ex: "exists_fn (world_after ?run) (dir_to self)"
    by (simp_all add: process_codeblock_success [OF assms(1) assms(3)] Let_def
        self_after_def world_after_def)
  have ready: "dir_ready (self_after ?run) (world_after ?run)"
    by (simp add: dir_ready_def dir ex)
  have "artifact_of (snd (process_codeblock (self_after ?run) cb' doc' (world_after ?run)))
          = Some (artifact_path (dir_to self) (abspath_fn w) (cb_text cb))"
    by (simp add: process_codeblock_success [OF assms(5) ready] Let_def artifact_of_def
        dir abs assms(6))
  with first link show ?thesis by simp
qed

theorem artifact_path_content_only_witness:
  "marker \<in> set (classes dash_block) \<and> marker \<in> set (classes diagram_link)
   \<and> dir_ready svgbob_self work_world \<and> files work_world (url diagram_link) = Some ''x->y''
   \<and> marker \<in> set (classes twice_block) \<and> cb_text twice_block = cb_text dash_block
   \<and> artifact_of (snd (process_codeblock svgbob_self dash_block empty_doc work_world))
        = Some ''/work/svg/73823f1b.svg''
   \<and> artifact_of (snd (action_link svgbob_self diagram_link empty_doc work_world))
        = Some ''/work/svg/6c167aec.svg''
   \<and> artifact_of (snd (process_codeblock
          (self_after (process_codeblock svgbob_self dash_block empty_doc work_world))
          twice_block null_doc
          (world_after (process_codeblock svgbob_self dash_block empty_doc work_world))))
        = Some ''/work/svg/73823f1b.svg''"
proof -
  have same: "cb_text twice_block = cb_text dash_block" and dash: "cb_text dash_block = ''a--b''"
    by (simp_all add: twice_block_def dash_block_def)
  show ?thesis
    using artifact_path_content_only [OF marked_examples(1) marked_examples(3) work_ready
        work_file marked_examples(2) same, where doc = empty_doc and doc' = null_doc]
    by (simp add: marked_examples work_ready work_file same dash artifact_path_dash
        artifact_path_arrow)
qed

text \<open>
  C1 as stated fails: for the link to \<open>diagram.txt\<close> (text \<open>x->y\<close>) converted in
  \<open>/work\<close>, the path of the image is \<open>/work/svg/6c167aec.svg\<close>, not
  \<open><output-dir>/<hash>.svg\<close>, which is \<open>svg/6c167aec.svg\<close>.
\<close>

theorem artifact_path_relative_counterexample:
  "artifact_of (snd (action_link svgbob_self diagram_link empty_doc work_world))
     \<noteq> Some (dir_to svgbob_self @ ''/'' @ take 8 (hexdigest (sha1 (encode_utf8 ''x->y'')))
               @ ''.svg'')"
proof -
  have "artifact_of (snd (action_link svgbob_self diagram_link empty_doc work_world))
          = Some ''/work/svg/6c167aec.svg''"
    by (simp add: action_link_success [OF marked_examples(3) work_ready work_file] Let_def
        artifact_of_def artifact_path_arrow)
  then show ?thesis by (simp add: sha1_arrow svgbob_self_def)
qed

text \<open>
  C2. For each of the four tunables, the value that goes into the option string is the
  node attribute when the key is present, else the metadata value under \<open>svgbob.<key>\<close>
  when present, else the default: \<open>get_options\<close> is the option string built from the values
  that \<open>resolve\<close> selects.
\<close>

theorem get_options_priority:
  \<open>get_options attrs doc =
     (let font_family = resolve ''font-family'' (PStr ''Arial'') attrs doc;
          font_size = resolve ''font-size'' (PInt 14) attrs doc;
          scale = resolve ''scale'' (PInt 1) attrs doc;
          stroke_width = resolve ''stroke-width'' (PInt 2) attrs doc
      in join '' ''
           [if font_family \<noteq> PNone then ''--font-family "'' @ format_value font_family @ ''"'' else '''',
            if font_size \<noteq> PNone then ''--font-size '' @ format_value font_size else '''',
            if scale \<noteq> PNone then ''--scale '' @ format_value scale else '''',
            if stroke_width \<noteq> PNone then ''--stroke-width '' @ format_value stroke_width else '''',
            background_option])\<close>
  unfolding get_options_def resolve_eq Let_def by simp

text \<open>
  C3 fails on the code: \<open>elem.classes.remove("svgbob")\<close> deletes the first occurrence only.
  A code block and a link with classes \<open>svgbob wide svgbob\<close> are converted to images with
  classes \<open>wide svgbob\<close>: the marker is still there.
\<close>

theorem repeated_marker_survives:
  "classes_of (snd (process_codeblock svgbob_self twice_block empty_doc work_world))
     = Some [''wide'', ''svgbob'']
   \<and> classes_of (snd (action_link svgbob_self twice_link empty_doc work_world))
     = Some [''wide'', ''svgbob'']
   \<and> marker \<in> set [''wide'', ''svgbob'']"
proof -
  have "classes_of (snd (process_codeblock svgbob_self twice_block empty_doc work_world))
          = Some [''wide'', ''svgbob'']"
  proof -
    have "classes_of (snd (process_codeblock svgbob_self twice_block empty_doc work_world))
            = Some (remove1 marker (classes twice_block))"
      by (simp add: process_codeblock_success [OF marked_examples(2) work_ready] Let_def
          classes_of_def)
    then show ?thesis by (simp add: twice_block_def marker_def)
  qed
  moreover have "classes_of (snd (action_link svgbob_self twice_link empty_doc work_world))
          = Some [''wide'', ''svgbob'']"
  proof -
    have "classes_of (snd (action_link svgbob_self twice_link empty_doc work_world))
            = Some (remove1 marker (classes twice_link))"
      by (simp add: action_link_success [OF marked_examples(4) work_ready work_file_twice] Let_def
          classes_of_def)
    then show ?thesis by (simp add: twice_link_def marker_def)
  qed
  ultimately show ?thesis by (simp add: marker_def)
qed

text \<open>
  C4, as amended. For a node that is neither a code block with the marker nor a link with
  the marker, the dispatcher returns \<open>None\<close>, the host framework's sign for "keep the node";
  the filter instance, the node and the environment are as before.
\<close>

theorem action_keeps_unmarked:
  assumes "\<not> is_marked e"
  shows "action self e doc w = ((self, e, w), Inr None)"
  using assms by (cases e) simp_all

theorem action_keeps_unmarked_witness:
  "\<not> is_marked (CodeBlock (dash_block\<lparr>classes := [''python'']\<rparr>))
   \<and> action svgbob_self (CodeBlock (dash_block\<lparr>classes := [''python'']\<rparr>)) empty_doc work_world
       = ((svgbob_self, CodeBlock (dash_block\<lparr>classes := [''python'']\<rparr>), work_world), Inr None)"
proof -
  have h: "\<not> is_marked (CodeBlock (dash_block\<lparr>classes := [''python'']\<rparr>))"
    by (simp add: marker_def)
  from action_keeps_unmarked [OF h] h show ?thesis by simp
qed

text \<open>
  C4 as stated fails: for a horizontal rule the dispatcher does not return the node, it
  returns \<open>None\<close>.
\<close>

theorem action_returns_none_counterexample:
  "snd (action svgbob_self (OtherElem ''HorizontalRule'') empty_doc work_world)
     \<noteq> Inr (Some (OtherElem ''HorizontalRule''))"
  by simp

text \<open>
  C5, as amended. For a code block with text \<open>a--b\<close>, no attributes and empty document
  metadata, the option string is \<open>--font-family "Arial" --font-size 14 --scale 1
  --stroke-width 2 --background "#fdf6e3"\<close>, and the output path is \<open>svg/73823f1b.svg\<close>
  (\<open>73823f1b\<close> being the first 8 hex digits of the SHA-1 of \<open>a--b\<close>) made absolute by the
  platform, with backslashes replaced.
\<close>

theorem dash_block_defaults:
  assumes "cb_text cb = ''a--b''" and "attributes cb = []" and "metadata doc = []"
    and "marker \<in> set (classes cb)" and "init w = Inr self" and "dir_ready self w"
  shows \<open>get_options (attributes cb) doc =
           ''--font-family "Arial" --font-size 14 --scale 1 --stroke-width 2 --background "#fdf6e3"''
       \<and> artifact_of (snd (process_codeblock self cb doc w))
           = Some (replace_backslash (abspath_fn w ''svg/73823f1b.svg''))\<close>
proof -
  have opts: \<open>get_options (attributes cb) doc =
           ''--font-family "Arial" --font-size 14 --scale 1 --stroke-width 2 --background "#fdf6e3"''\<close>
    by (simp add: get_options_def get_metadata_def dict_get_def assms(2) assms(3)
        background_option_def str_int_small)
  have dir: "dir_to self = ''svg''"
    using assms(5) by (auto simp: init_def split: if_splits)
  have "artifact_of (snd (process_codeblock self cb doc w))
          = Some (artifact_path (dir_to self) (abspath_fn w) (cb_text cb))"
    by (simp add: process_codeblock_success [OF assms(4) assms(6)] Let_def artifact_of_def)
  then have "artifact_of (snd (process_codeblock self cb doc w))
          = Some (replace_backslash (abspath_fn w ''svg/73823f1b.svg''))"
    by (simp add: artifact_path_def dir assms(1) sha1_dash)
  with opts show ?thesis by simp
qed

theorem dash_block_defaults_witness:
  \<open>cb_text dash_block = ''a--b'' \<and> attributes dash_block = [] \<and> metadata empty_doc = []
   \<and> marker \<in> set (classes dash_block) \<and> init work_world = Inr svgbob_self
   \<and> dir_ready svgbob_self work_world
   \<and> get_options (attributes dash_block) empty_doc =
        ''--font-family "Arial" --font-size 14 --scale 1 --stroke-width 2 --background "#fdf6e3"''
   \<and> artifact_of (snd (process_codeblock svgbob_self dash_block empty_doc work_world))
        = Some ''/work/svg/73823f1b.svg''\<close>
proof -
  have h: "cb_text dash_block = ''a--b''" "attributes dash_block = []" "metadata empty_doc = []"
    by (simp_all add: dash_block_def empty_doc_def)
  have abs: "replace_backslash (abspath_fn work_world ''svg/73823f1b.svg'') = ''/work/svg/73823f1b.svg''"
    by (simp add: work_world_def replace_backslash_def)
  show ?thesis
    using dash_block_defaults [OF h marked_examples(1) init_work_world work_ready]
    by (simp add: h marked_examples(1) init_work_world work_ready abs)
qed

text \<open>
  C5 as stated fails in its second part: converted in \<open>/work\<close>, the block gets the output
  path \<open>/work/svg/73823f1b.svg\<close>, not \<open>svg/<sha1("a--b")[:8]>.svg\<close>.
\<close>

theorem dash_block_path_counterexample:
  "cb_text dash_block = ''a--b'' \<and> attributes dash_block = [] \<and> metadata empty_doc = []
   \<and> artifact_of (snd (process_codeblock svgbob_self dash_block empty_doc work_world))
        \<noteq> Some (''svg/'' @ take 8 (hexdigest (sha1 (encode_utf8 ''a--b''))) @ ''.svg'')"
proof -
  have "artifact_of (snd (process_codeblock svgbob_self dash_block empty_doc work_world))
          = Some (artifact_path (dir_to svgbob_self) (abspath_fn work_world) (cb_text dash_block))"
    by (simp add: process_codeblock_success [OF marked_examples(1) work_ready] Let_def
        artifact_of_def)
  then show ?thesis
    by (simp add: dash_block_def empty_doc_def artifact_path_dash sha1_dash)
qed

text \<open>
  C6. When neither \<open>svgbob_cli\<close> nor \<open>svgbob\<close> is found on the path, \<open>main\<close> ends with the
  error of the initialisation and the environment is as before: no directory has been
  created, no process started, nothing logged. This holds for every host, so the host has
  not been run and no node has been visited.
\<close>

theorem main_fails_without_renderer:
  assumes "\<not> which_found w ''svgbob_cli''" and "\<not> which_found w ''svgbob''"
  shows "main run_filters doc w = (w, Inl (AssertionError ''svgbob or svgbob_cli is not in path''))"
  using assms by (simp add: main_def init_def)

theorem main_fails_without_renderer_witness:
  "\<not> which_found bare_world ''svgbob_cli'' \<and> \<not> which_found bare_world ''svgbob''
   \<and> main walk_host dash_doc bare_world
        = (bare_world, Inl (AssertionError ''svgbob or svgbob_cli is not in path''))
   \<and> \<not> exists_fn (fst (main walk_host dash_doc bare_world)) ''svg''"
proof -
  have h: "\<not> which_found bare_world ''svgbob_cli''" "\<not> which_found bare_world ''svgbob''"
    by (simp_all add: which_found_def bare_world_def)
  have "\<not> exists_fn bare_world ''svg''"
    by (simp add: bare_world_def work_world_def)
  with main_fails_without_renderer [OF h, where run_filters = walk_host and doc = dash_doc] h show ?thesis by simp
qed

text \<open>
  C7, as amended. Every renderer invocation is one shell command. In the code-block path
  it is \<open><binary> <options> -o <output-path>\<close>; in the link path it is
  \<open><binary> <absolute source-file path> <options> -o <output-path>\<close>: the positional
  source file comes before the option flags. The options end with
  \<open>--background "#fdf6e3"\<close>.
\<close>

theorem renderer_command_order:
  assumes "dir_ready self w" and "files w (url l) = Some data"
  shows "map command (procs (world_after (process_codeblock self cb doc w)))
           = map command (procs w) @
               [svgbob_cmd self @ '' '' @ get_options (attributes cb) doc @ '' -o ''
                  @ artifact_path (dir_to self) (abspath_fn w) (cb_text cb)]
       \<and> map command (procs (world_after (action_link self l doc w)))
           = map command (procs w) @
               [svgbob_cmd self @ '' '' @ abspath_fn w (url l) @ '' ''
                  @ get_options (attributes l) doc @ '' -o ''
                  @ artifact_path (dir_to self) (abspath_fn w) data]
       \<and> (\<exists>flags. get_options (attributes cb) doc = flags @ background_option)
       \<and> (\<exists>flags. get_options (attributes l) doc = flags @ background_option)"
proof -
  have bg: "\<exists>flags. get_options attrs doc = flags @ background_option" for attrs
    unfolding get_options_def Let_def join_background by blast
  show ?thesis
    by (simp add: process_codeblock_procs [OF assms(1)] action_link_procs [OF assms] bg)
qed

theorem renderer_command_order_witness:
  \<open>dir_ready svgbob_self work_world \<and> files work_world (url diagram_link) = Some ''x->y''
   \<and> map command (procs (world_after (process_codeblock svgbob_self dash_block empty_doc work_world)))
        = [''svgbob --font-family "Arial" --font-size 14 --scale 1 --stroke-width 2 --background "#fdf6e3" -o /work/svg/73823f1b.svg'']
   \<and> map command (procs (world_after (action_link svgbob_self diagram_link empty_doc work_world)))
        = [''svgbob /work/diagram.txt --font-family "Arial" --font-size 14 --scale 1 --stroke-width 2 --background "#fdf6e3" -o /work/svg/6c167aec.svg'']\<close>
proof -
  have v: "procs work_world = []" "svgbob_cmd svgbob_self = ''svgbob''"
    "abspath_fn work_world (url diagram_link) = ''/work/diagram.txt''"
    "attributes dash_block = []" "attributes diagram_link = []" "cb_text dash_block = ''a--b''"
    by (simp_all add: work_world_def svgbob_self_def diagram_link_def dash_block_def)
  show ?thesis
    using renderer_command_order [OF work_ready work_file, where cb = dash_block and doc = empty_doc]
    by (simp add: work_ready work_file v get_options_defaults artifact_path_dash artifact_path_arrow)
qed

text \<open>
  C7 as stated fails in the link path: the command for the link to \<open>diagram.txt\<close> is not
  \<open><binary> <options> <source-file> -o <output-path>\<close>.
\<close>

theorem link_command_order_counterexample:
  "map command (procs (world_after (action_link svgbob_self diagram_link empty_doc work_world)))
     \<noteq> [svgbob_cmd svgbob_self @ '' '' @ get_options (attributes diagram_link) empty_doc @ '' ''
           @ abspath_fn work_world (url diagram_link) @ '' -o ''
           @ artifact_path (dir_to svgbob_self) (abspath_fn work_world) ''x->y'']"
proof -
  have v: "procs work_world = []" "svgbob_cmd svgbob_self = ''svgbob''"
    "abspath_fn work_world (url diagram_link) = ''/work/diagram.txt''"
    "attributes diagram_link = []"
    by (simp_all add: work_world_def svgbob_self_def diagram_link_def)
  show ?thesis
    by (simp add: action_link_procs [OF work_ready work_file] v get_options_defaults)
qed

text \<open>
  C8, as amended. A conversion returns a newly built node (an image inside a paragraph for
  a code block, an image for a link) and leaves the identifier, the attributes and the
  payload of the input node as they were; it changes the class list of the input node in
  place, deleting the first occurrence of the marker.
\<close>

theorem conversion_changes_classes_only:
  assumes "marker \<in> set (classes cb)" and "marker \<in> set (classes l)"
    and "dir_ready self w" and "files w (url l) = Some data"
  shows "node_after (process_codeblock self cb doc w) = cb\<lparr>classes := remove1 marker (classes cb)\<rparr>
       \<and> ident (node_after (process_codeblock self cb doc w)) = ident cb
       \<and> attributes (node_after (process_codeblock self cb doc w)) = attributes cb
       \<and> cb_text (node_after (process_codeblock self cb doc w)) = cb_text cb
       \<and> (\<exists>img. snd (process_codeblock self cb doc w) = Inr (Para [Image img]))
       \<and> node_after (action_link self l doc w) = l\<lparr>classes := remove1 marker (classes l)\<rparr>
       \<and> ident (node_after (action_link self l doc w)) = ident l
       \<and> attributes (node_after (action_link self l doc w)) = attributes l
       \<and> content (node_after (action_link self l doc w)) = content l
       \<and> url (node_after (action_link self l doc w)) = url l
       \<and> title (node_after (action_link self l doc w)) = title l
       \<and> (\<exists>img. snd (action_link self l doc w) = Inr (Image img))"
  by (simp add: process_codeblock_success [OF assms(1) assms(3)]
      action_link_success [OF assms(2) assms(3) assms(4)] Let_def node_after_def)

theorem conversion_changes_classes_only_witness:
  "marker \<in> set (classes dash_block) \<and> marker \<in> set (classes diagram_link)
   \<and> dir_ready svgbob_self work_world \<and> files work_world (url diagram_link) = Some ''x->y''
   \<and> node_after (process_codeblock svgbob_self dash_block empty_doc work_world)
        = dash_block\<lparr>classes := []\<rparr>
   \<and> node_after (action_link svgbob_self diagram_link empty_doc work_world)
        = diagram_link\<lparr>classes := []\<rparr>"
proof -
  have c: "remove1 marker (classes dash_block) = []" "remove1 marker (classes diagram_link) = []"
    by (simp_all add: marker_def dash_block_def diagram_link_def)
  show ?thesis
    using conversion_changes_classes_only [OF marked_examples(1) marked_examples(3) work_ready
        work_file, where doc = empty_doc]
    by (simp add: marked_examples work_ready work_file c)
qed

text \<open>
  C8 as stated fails: after the conversion of the example block, the input node has lost
  its class \<open>svgbob\<close>.
\<close>

theorem conversion_mutates_classes_counterexample:
  "classes (node_after (process_codeblock svgbob_self dash_block empty_doc work_world))
     \<noteq> classes dash_block"
proof -
  have "classes (node_after (process_codeblock svgbob_self dash_block empty_doc work_world))
          = remove1 marker (classes dash_block)"
    by (simp add: process_codeblock_success [OF marked_examples(1) work_ready] Let_def
        node_after_def)
  then show ?thesis by (simp add: dash_block_def marker_def)
qed

text \<open>
  C9. When the code-block conversion returns, the subprocess it started has received the
  text on its standard input and has been waited for (\<open>communicate\<close>); when the link
  conversion returns, the subprocess it started has been given no input and has not been
  waited for.
\<close>

theorem codeblock_waits_link_does_not:
  assumes "dir_ready self w" and "files w (url l) = Some data"
  shows "(\<exists>p. procs (world_after (process_codeblock self cb doc w)) = procs w @ [p]
             \<and> waited p \<and> stdin_data p = Some (encode_utf8 (cb_text cb)))
       \<and> (\<exists>p. procs (world_after (action_link self l doc w)) = procs w @ [p]
             \<and> \<not> waited p \<and> stdin_data p = None)"
  by (simp add: process_codeblock_procs [OF assms(1)] action_link_procs [OF assms])

theorem codeblock_waits_link_does_not_witness:
  "dir_ready svgbob_self work_world \<and> files work_world (url diagram_link) = Some ''x->y''
   \<and> map waited (procs (world_after (process_codeblock svgbob_self dash_block empty_doc work_world)))
        = [True]
   \<and> map waited (procs (world_after (action_link svgbob_self diagram_link empty_doc work_world)))
        = [False]"
proof -
  have v: "procs work_world = []"
    by (simp add: work_world_def)
  show ?thesis
    using codeblock_waits_link_does_not [OF work_ready work_file, where cb = dash_block and doc = empty_doc]
    by (auto simp: work_ready work_file v)
qed

text \<open>
  C10. Option resolution is total. The option string is the join with single spaces of five
  segments, the last of which is \<open>--background "#fdf6e3"\<close>; when a tunable resolves to
  \<open>None\<close> its segment is empty, so its flag is not produced, and the string still ends
  with the background option.
\<close>

theorem none_tunable_drops_flag:
  "get_options attrs doc = join '' '' (option_segments attrs doc)
   \<and> length (option_segments attrs doc) = 5
   \<and> option_segments attrs doc ! 4 = background_option
   \<and> (resolve ''font-family'' (PStr ''Arial'') attrs doc = PNone
        \<longrightarrow> option_segments attrs doc ! 0 = '''')
   \<and> (resolve ''font-size'' (PInt 14) attrs doc = PNone
        \<longrightarrow> option_segments attrs doc ! 1 = '''')
   \<and> (resolve ''scale'' (PInt 1) attrs doc = PNone
        \<longrightarrow> option_segments attrs doc ! 2 = '''')
   \<and> (resolve ''stroke-width'' (PInt 2) attrs doc = PNone
        \<longrightarrow> option_segments attrs doc ! 3 = '''')
   \<and> (\<exists>flags. get_options attrs doc = flags @ background_option)"
proof -
  have j: "get_options attrs doc = join '' '' (option_segments attrs doc)"
    unfolding get_options_def option_segments_def flag_segment_def resolve_eq Let_def
    by simp
  have bg: "\<exists>flags. get_options attrs doc = flags @ background_option"
    unfolding get_options_def Let_def join_background by blast
  show ?thesis
    using j bg by (simp add: option_segments_def flag_segment_def)
qed

theorem none_tunable_drops_flag_witness:
  \<open>resolve ''font-family'' (PStr ''Arial'') [] null_doc = PNone
   \<and> resolve ''font-size'' (PInt 14) [] null_doc = PNone
   \<and> resolve ''scale'' (PInt 1) [] null_doc = PNone
   \<and> resolve ''stroke-width'' (PInt 2) [] null_doc = PNone
   \<and> option_segments [] null_doc = ['''', '''', '''', '''', ''--background "#fdf6e3"'']
   \<and> get_options [] null_doc = ''    --background "#fdf6e3"''\<close>
proof -
  have r: "resolve ''font-family'' (PStr ''Arial'') [] null_doc = PNone"
    "resolve ''font-size'' (PInt 14) [] null_doc = PNone"
    "resolve ''scale'' (PInt 1) [] null_doc = PNone"
    "resolve ''stroke-width'' (PInt 2) [] null_doc = PNone"
    by (simp_all add: resolve_def null_doc_def)
  have s: \<open>option_segments [] null_doc = ['''', '''', '''', '''', ''--background "#fdf6e3"'']\<close>
    by (simp add: option_segments_def flag_segment_def r background_option_def)
  show ?thesis
    using none_tunable_drops_flag [of "[]" null_doc]
    by (simp add: r s)
qed

end
